theory Spec2Isabelle
  imports Main "HOL-Library.AList"
begin

section \<open>Python values, exceptions and dictionaries\<close>

text \<open>
  The module \<^verbatim>\<open>hpilo.py\<close> moves untyped Python values between the configuration
  lookup, the remote client and its caller. They are modelled by one datatype; a
  dictionary with string keys is an association list in insertion order.
\<close>

datatype pyval =
    PNone
  | PBool bool
  | PInt int
  | PStr string
  | PList "pyval list"
  | PDict "(string \<times> pyval) list"

text \<open>
  Exceptions are values. \<open>IloError\<close> is the error class \<^verbatim>\<open>hpilo.IloError\<close> of the
  client library; the others are the built-in exceptions the module can run into.
\<close>

datatype exn =
    IloError string
  | NameError string
  | KeyError string
  | TypeError string
  | AttributeError string
  | OtherError string

type_synonym kwargs = "(string \<times> pyval) list"

text \<open>\<^verbatim>\<open>k in d\<close> for a dictionary with string keys.\<close>

definition has_key :: "(string \<times> pyval) list \<Rightarrow> string \<Rightarrow> bool" where
  "has_key d k = (k \<in> fst ` set d)"

text \<open>\<^verbatim>\<open>kwargs.get(k)\<close> on the keyword inputs: None for a missing key.\<close>

definition kw_get :: "(string \<times> pyval) list \<Rightarrow> string \<Rightarrow> pyval" where
  "kw_get d k = (case map_of d k of Some v \<Rightarrow> v | None \<Rightarrow> PNone)"

text \<open>\<^verbatim>\<open>obj[k]\<close> with a string key: KeyError on a dictionary without the key,
  TypeError on every value that is not a dictionary.\<close>

fun py_getitem :: "pyval \<Rightarrow> string \<Rightarrow> exn + pyval" where
  "py_getitem (PDict d) k =
     (case map_of d k of Some v \<Rightarrow> Inr v | None \<Rightarrow> Inl (KeyError k))"
| "py_getitem (PStr s) k = Inl (TypeError ''string indices must be integers'')"
| "py_getitem (PList xs) k = Inl (TypeError ''list indices must be integers or slices, not str'')"
| "py_getitem v k = Inl (TypeError ''object is not subscriptable'')"

text \<open>\<^verbatim>\<open>d.get(k)\<close>: the value, or None for a missing key; a value without a
  \<^verbatim>\<open>get\<close> method raises AttributeError.\<close>

fun py_get :: "pyval \<Rightarrow> string \<Rightarrow> exn + pyval" where
  "py_get (PDict d) k = (case map_of d k of Some v \<Rightarrow> Inr v | None \<Rightarrow> Inr PNone)"
| "py_get v k = Inl (AttributeError ''get'')"

text \<open>Truth value of a Python object, as \<^verbatim>\<open>if x:\<close> tests it.\<close>

fun py_truthy :: "pyval \<Rightarrow> bool" where
  "py_truthy PNone = False"
| "py_truthy (PBool b) = b"
| "py_truthy (PInt i) = (i \<noteq> 0)"
| "py_truthy (PStr s) = (s \<noteq> [])"
| "py_truthy (PList xs) = (xs \<noteq> [])"
| "py_truthy (PDict d) = (d \<noteq> [])"

text \<open>\<^verbatim>\<open>x == False\<close>: booleans are integers in Python, so \<open>0\<close> is equal to
  \<open>False\<close>; None, strings, lists and dictionaries never are.\<close>

fun py_eq_False :: "pyval \<Rightarrow> bool" where
  "py_eq_False (PBool b) = (\<not> b)"
| "py_eq_False (PInt i) = (i = 0)"
| "py_eq_False v = False"

text \<open>\<^verbatim>\<open>{**d, **items}\<close>: the items are stored from left to right, a key already
  present keeps its position and takes the new value.\<close>

definition dict_merge :: "(string \<times> pyval) list \<Rightarrow> (string \<times> pyval) list \<Rightarrow> (string \<times> pyval) list" where
  "dict_merge d items = fold (\<lambda>(k, v). AList.update k v) items d"

section \<open>The remote client and the environment of the module\<close>

text \<open>The Credential Set, and the handle \<^verbatim>\<open>hpilo.Ilo(**creds, delayed=delay)\<close>
  that is built from it.\<close>

record creds =
  login :: pyval
  password :: pyval
  hostname :: pyval

record ilo = creds +
  delayed :: pyval

text \<open>The methods of the client that the module calls.\<close>

datatype ilo_method =
    GetHostPowerStatus
  | SetHostPower bool
  | HoldPwrBtn
  | PressPwrBtn
  | GetAllUserInfo
  | GetAllUsers
  | GetProductName
  | GetFwVersion
  | GetAssetTag
  | GetNetworkSettings
  | GetPersistentBoot

text \<open>An f-string is a sequence of literal text and formatted values.\<close>

datatype fragment = Lit string | Fmt pyval | FmtExn exn

text \<open>What a call of the module does to the world, in order: it constructs clients,
  calls their methods and writes error messages to the log.\<close>

datatype event =
    Construct ilo
  | RemoteCall ilo ilo_method
  | LogError "fragment list"

text \<open>
  The environment: \<open>config\<close> is the module global \<^verbatim>\<open>config\<close>, which the module
  itself never binds (\<open>None\<close> is the unbound name); \<open>config_option\<close> is
  \<^verbatim>\<open>__salt__['config.option']\<close>; \<open>remote\<close> is the answer of the device to a method
  of a client, a value or a raised exception. No operation calls the same method twice.
\<close>

record env =
  config :: "pyval option"
  config_option :: "pyval \<Rightarrow> exn + pyval"
  remote :: "ilo \<Rightarrow> ilo_method \<Rightarrow> exn + pyval"

definition call :: "env \<Rightarrow> ilo \<Rightarrow> ilo_method \<Rightarrow> event list \<Rightarrow> (exn + pyval) \<times> event list" where
  "call e h m s = (remote e h m, s @ [RemoteCall h m])"

section \<open>The credential resolver\<close>

text \<open>A dictionary display evaluates its three values in order; the first exception
  leaves it.\<close>

definition mk_creds :: "exn + pyval \<Rightarrow> exn + pyval \<Rightarrow> exn + pyval \<Rightarrow> exn + creds" where
  "mk_creds l p h =
     (case l of Inl x \<Rightarrow> Inl x | Inr lv \<Rightarrow>
      (case p of Inl x \<Rightarrow> Inl x | Inr pv \<Rightarrow>
       (case h of Inl x \<Rightarrow> Inl x | Inr hv \<Rightarrow>
          Inr \<lparr>login = lv, password = pv, hostname = hv\<rparr>)))"

text \<open>
  \<^verbatim>\<open>_login(delay=False, **kwargs)\<close>, called as \<^verbatim>\<open>_login(**kwargs)\<close>: a key
  \<^verbatim>\<open>delay\<close> of the caller binds the parameter and is not part of the inner
  \<^verbatim>\<open>kwargs\<close>.
\<close>

definition u_login :: "env \<Rightarrow> kwargs \<Rightarrow> event list \<Rightarrow> (exn + ilo) \<times> event list" where
  "u_login e kw s =
     (let delay = (case map_of kw ''delay'' of Some v \<Rightarrow> v | None \<Rightarrow> PBool False);
          kwargs = filter (\<lambda>(k, v). k \<noteq> ''delay'') kw;
          cr =
            (if has_key kwargs ''login'' \<and> has_key kwargs ''password'' \<and> has_key kwargs ''hostname''
             then (case config e of
                     None \<Rightarrow> Inl (NameError ''config'')
                   | Some c \<Rightarrow>
                       mk_creds (py_getitem c ''login'') (py_getitem c ''password'')
                         (py_getitem c ''hostname''))
             else (case map_of kwargs ''profile'' of
                     Some p \<Rightarrow>
                       (case config_option e p of
                          Inl x \<Rightarrow> Inl x
                        | Inr profile \<Rightarrow>
                            mk_creds (py_getitem profile ''login'') (py_getitem profile ''password'')
                              (py_getitem profile ''hostname''))
                   | None \<Rightarrow>
                       mk_creds (config_option e (PStr ''hpilo.login''))
                         (config_option e (PStr ''hpilo.password''))
                         (config_option e (PStr ''hpilo.hostname''))))
      in case cr of
           Inl x \<Rightarrow> (Inl x, s)
         | Inr c \<Rightarrow>
             (let h = \<lparr>login = login c, password = password c, hostname = hostname c,
                        delayed = delay\<rparr>
              in (Inr h, s @ [Construct h])))"

section \<open>The operation dispatchers\<close>

definition get_power_status :: "env \<Rightarrow> kwargs \<Rightarrow> event list \<Rightarrow> (exn + pyval) \<times> event list" where
  "get_power_status e kwargs s =
     (case u_login e kwargs s of
        (Inl x, s1) \<Rightarrow> (Inl x, s1)
      | (Inr h, s1) \<Rightarrow>
          (case call e h GetHostPowerStatus s1 of
             (Inl x, s2) \<Rightarrow>
               (case x of
                  IloError m \<Rightarrow>
                    (Inr (PDict []),
                     s2 @ [LogError [Lit ''Failed to get power state of '', Fmt (hostname h),
                                     Lit '': '', FmtExn x]])
                | _ \<Rightarrow> (Inl x, s2))
           | (Inr pwr, s2) \<Rightarrow> (Inr (PDict [(''power'', PBool (pwr = PStr ''ON''))]), s2)))"

text \<open>
  \<^verbatim>\<open>power_on\<close>: the handler names \<^verbatim>\<open>IloError\<close>, which the module never binds
  (it imports \<^verbatim>\<open>hpilo\<close> only), so matching any exception against it raises
  NameError; and the function ends without a \<^verbatim>\<open>return\<close>, so it returns None.
\<close>

definition power_on :: "env \<Rightarrow> kwargs \<Rightarrow> event list \<Rightarrow> (exn + pyval) \<times> event list" where
  "power_on e kwargs s =
     (case u_login e kwargs s of
        (Inl x, s1) \<Rightarrow> (Inl x, s1)
      | (Inr h, s1) \<Rightarrow>
          (case call e h (SetHostPower True) s1 of
             (Inl x, s2) \<Rightarrow> (Inl (NameError ''IloError''), s2)
           | (Inr pwr, s2) \<Rightarrow> (Inr PNone, s2)))"

definition power_off :: "env \<Rightarrow> pyval \<Rightarrow> kwargs \<Rightarrow> event list \<Rightarrow> (exn + pyval) \<times> event list" where
  "power_off e hold kwargs s =
     (let ret = PDict [(''power_state'', PBool False)] in
      case u_login e kwargs s of
        (Inl x, s1) \<Rightarrow> (Inl x, s1)
      | (Inr h, s1) \<Rightarrow>
          (case get_power_status e kwargs s1 of
             (Inl x, s2) \<Rightarrow> (Inl x, s2)
           | (Inr st, s2) \<Rightarrow>
               (case py_get st ''power'' of
                  Inl x \<Rightarrow> (Inl x, s2)
                | Inr p \<Rightarrow>
                    if py_eq_False p then (Inr ret, s2)
                    else
                      (case call e h (if py_truthy hold then HoldPwrBtn else PressPwrBtn) s2 of
                         (Inr r, s3) \<Rightarrow> (Inr ret, s3)
                       | (Inl x, s3) \<Rightarrow>
                           (case x of
                              IloError m \<Rightarrow>
                                (Inr (PDict [(''power_state'', PNone)]),
                                 s3 @ [LogError [Lit ''Failed to power off '', Fmt (hostname h),
                                                 Lit '': '', FmtExn x]])
                            | _ \<Rightarrow> (Inl x, s3))))))"

definition list_users :: "env \<Rightarrow> kwargs \<Rightarrow> event list \<Rightarrow> (exn + pyval) \<times> event list" where
  "list_users e kwargs s =
     (case u_login e kwargs s of
        (Inl x, s1) \<Rightarrow> (Inl x, s1)
      | (Inr h, s1) \<Rightarrow>
          (case call e h
                  (if py_truthy (kw_get kwargs ''detailed'') then GetAllUserInfo else GetAllUsers)
                  s1 of
             (Inr r, s2) \<Rightarrow> (Inr r, s2)
           | (Inl x, s2) \<Rightarrow>
               (case x of
                  IloError m \<Rightarrow>
                    (Inr (PDict []),
                     s2 @ [LogError [Lit ''Failed to get all users from '', Fmt (hostname h),
                                     Lit '': '', FmtExn x]])
                | _ \<Rightarrow> (Inl x, s2))))"

text \<open>The handler of \<^verbatim>\<open>product_info\<close>, shared by its three remote calls.\<close>

definition product_info_failed :: "ilo \<Rightarrow> exn \<Rightarrow> event list \<Rightarrow> (exn + pyval) \<times> event list" where
  "product_info_failed h x s =
     (case x of
        IloError m \<Rightarrow>
          (Inr (PDict []),
           s @ [LogError [Lit ''Failed to get product name and version version from '',
                          Fmt (hostname h), Lit '': '', FmtExn x]])
      | _ \<Rightarrow> (Inl x, s))"

text \<open>The display \<^verbatim>\<open>{'product_name': product_name, **asset_tag, **fw_version}\<close>:
  unpacking a value that is not a mapping raises TypeError, outside the \<^verbatim>\<open>try\<close>.\<close>

definition product_info_result :: "pyval \<Rightarrow> pyval \<Rightarrow> pyval \<Rightarrow> exn + pyval" where
  "product_info_result product_name fw_version asset_tag =
     (case asset_tag of
        PDict a \<Rightarrow>
          (case fw_version of
             PDict f \<Rightarrow> Inr (PDict (dict_merge (dict_merge [(''product_name'', product_name)] a) f))
           | _ \<Rightarrow> Inl (TypeError ''object is not a mapping''))
      | _ \<Rightarrow> Inl (TypeError ''object is not a mapping''))"

definition product_info :: "env \<Rightarrow> kwargs \<Rightarrow> event list \<Rightarrow> (exn + pyval) \<times> event list" where
  "product_info e kwargs s =
     (case u_login e kwargs s of
        (Inl x, s1) \<Rightarrow> (Inl x, s1)
      | (Inr h, s1) \<Rightarrow>
          (case call e h GetProductName s1 of
             (Inl x, s2) \<Rightarrow> product_info_failed h x s2
           | (Inr product_name, s2) \<Rightarrow>
               (case call e h GetFwVersion s2 of
                  (Inl x, s3) \<Rightarrow> product_info_failed h x s3
                | (Inr fw_version, s3) \<Rightarrow>
                    (case call e h GetAssetTag s3 of
                       (Inl x, s4) \<Rightarrow> product_info_failed h x s4
                     | (Inr asset_tag, s4) \<Rightarrow>
                         (product_info_result product_name fw_version asset_tag, s4)))))"

definition network_settings :: "env \<Rightarrow> kwargs \<Rightarrow> event list \<Rightarrow> (exn + pyval) \<times> event list" where
  "network_settings e kwargs s =
     (case u_login e kwargs s of
        (Inl x, s1) \<Rightarrow> (Inl x, s1)
      | (Inr h, s1) \<Rightarrow>
          (case call e h GetNetworkSettings s1 of
             (Inr r, s2) \<Rightarrow> (Inr r, s2)
           | (Inl x, s2) \<Rightarrow>
               (case x of
                  IloError m \<Rightarrow>
                    (Inr (PDict []),
                     s2 @ [LogError [Lit ''Failed to get network settings from '', Fmt (hostname h),
                                     Lit '': '', FmtExn x]])
                | _ \<Rightarrow> (Inl x, s2))))"

definition get_boot_order :: "env \<Rightarrow> kwargs \<Rightarrow> event list \<Rightarrow> (exn + pyval) \<times> event list" where
  "get_boot_order e kwargs s =
     (case u_login e kwargs s of
        (Inl x, s1) \<Rightarrow> (Inl x, s1)
      | (Inr h, s1) \<Rightarrow>
          (case call e h GetPersistentBoot s1 of
             (Inr r, s2) \<Rightarrow> (Inr r, s2)
           | (Inl x, s2) \<Rightarrow>
               (case x of
                  IloError m \<Rightarrow>
                    (Inr (PDict []),
                     s2 @ [LogError [Lit ''Failed to get boot order from '', Fmt (hostname h),
                                     Lit '': '', FmtExn x]])
                | _ \<Rightarrow> (Inl x, s2))))"

section \<open>Observations on a trace\<close>

text \<open>The events that a call adds to the trace \<open>s\<close> it started from.\<close>

definition new_events :: "event list \<Rightarrow> event list \<Rightarrow> event list" where
  "new_events s s' = drop (length s) s'"

text \<open>The number of power-change commands (button press, button hold, power set) in
  a trace.\<close>

fun is_power_change :: "event \<Rightarrow> bool" where
  "is_power_change (RemoteCall h HoldPwrBtn) = True"
| "is_power_change (RemoteCall h PressPwrBtn) = True"
| "is_power_change (RemoteCall h (SetHostPower b)) = True"
| "is_power_change ev = False"

definition power_change_calls :: "event list \<Rightarrow> nat" where
  "power_change_calls s = length (filter is_power_change s)"

text \<open>The handles on which a trace calls a method, and the handles it constructs.\<close>

fun called_handles :: "event list \<Rightarrow> ilo list" where
  "called_handles [] = []"
| "called_handles (RemoteCall h m # s) = h # called_handles s"
| "called_handles (ev # s) = called_handles s"

fun constructed_handles :: "event list \<Rightarrow> ilo list" where
  "constructed_handles [] = []"
| "constructed_handles (Construct h # s) = h # constructed_handles s"
| "constructed_handles (ev # s) = constructed_handles s"

section \<open>Example inputs\<close>

text \<open>The profile and the defaults of the module's documentation, and the keyword
  inputs of its two command lines.\<close>

definition profile_server1 :: pyval where
  "profile_server1 =
     PDict [(''login'', PStr ''Administrator''), (''password'', PStr ''password_1''),
            (''hostname'', PStr ''server1-ilo.oob.local'')]"

definition example_option :: "pyval \<Rightarrow> exn + pyval" where
  "example_option k =
     (if k = PStr ''server1-ilo'' then Inr profile_server1
      else if k = PStr ''hpilo.login'' then Inr (PStr ''Administrator'')
      else if k = PStr ''hpilo.password'' then Inr (PStr ''password'')
      else if k = PStr ''hpilo.hostname'' then Inr (PStr ''server1-ilo.oob.local'')
      else Inr (PStr []))"

definition example_env :: "pyval option \<Rightarrow> (ilo_method \<Rightarrow> exn + pyval) \<Rightarrow> env" where
  "example_env c r = \<lparr>config = c, config_option = example_option, remote = (\<lambda>h. r)\<rparr>"

definition kw_profile :: kwargs where
  "kw_profile = [(''profile'', PStr ''server1-ilo'')]"

definition kw_explicit :: kwargs where
  "kw_explicit =
     [(''hostname'', PStr ''server9-ilo''), (''login'', PStr ''operator''),
      (''password'', PStr ''secret'')]"

definition handle_server1 :: ilo where
  "handle_server1 =
     \<lparr>login = PStr ''Administrator'', password = PStr ''password_1'',
      hostname = PStr ''server1-ilo.oob.local'', delayed = PBool False\<rparr>"

text \<open>A process-wide configuration object, for the case that the name
  \<^verbatim>\<open>config\<close> is bound.\<close>

definition config_object :: pyval where
  "config_object =
     PDict [(''login'', PStr ''cfg-user''), (''password'', PStr ''cfg-pass''),
            (''hostname'', PStr ''cfg-host'')]"

text \<open>Devices: one that is on and answers every query, one that is off, one whose
  power button fails, and one that answers nothing.\<close>

definition device_on :: "ilo_method \<Rightarrow> exn + pyval" where
  "device_on m =
     (case m of
        GetHostPowerStatus \<Rightarrow> Inr (PStr ''ON'')
      | GetAllUsers \<Rightarrow> Inr (PList [PStr ''Administrator'', PStr ''backup''])
      | GetAllUserInfo \<Rightarrow>
          Inr (PDict [(''Administrator'', PDict [(''admin_priv'', PBool True)]),
                      (''backup'', PDict [(''admin_priv'', PBool False)])])
      | GetProductName \<Rightarrow> Inr (PStr ''ProLiant DL380 Gen9'')
      | GetFwVersion \<Rightarrow>
          Inr (PDict [(''firmware_version'', PStr ''2.50''),
                      (''management_processor'', PStr ''iLO4'')])
      | GetAssetTag \<Rightarrow> Inr (PDict [(''asset_tag'', PStr ''R42'')])
      | _ \<Rightarrow> Inr PNone)"

definition device_off :: "ilo_method \<Rightarrow> exn + pyval" where
  "device_off m = (case m of GetHostPowerStatus \<Rightarrow> Inr (PStr ''OFF'') | _ \<Rightarrow> Inr PNone)"

definition device_button_fails :: "ilo_method \<Rightarrow> exn + pyval" where
  "device_button_fails m =
     (case m of
        GetHostPowerStatus \<Rightarrow> Inr (PStr ''ON'')
      | HoldPwrBtn \<Rightarrow> Inl (IloError ''button locked'')
      | PressPwrBtn \<Rightarrow> Inl (IloError ''button locked'')
      | _ \<Rightarrow> Inr PNone)"

definition device_silent :: "ilo_method \<Rightarrow> exn + pyval" where
  "device_silent m =
     (case m of
        HoldPwrBtn \<Rightarrow> Inr PNone
      | PressPwrBtn \<Rightarrow> Inr PNone
      | _ \<Rightarrow> Inl (IloError ''timed out''))"

section \<open>Facts about the resolver, traces and dictionaries\<close>

text \<open>The resolver reads the trace only to extend it: a login that succeeds from one
  trace succeeds from every trace, with the same handle, and records its construction.\<close>

lemma u_login_state:
  "fst (u_login e kw s) = Inr h \<Longrightarrow> u_login e kw s' = (Inr h, s' @ [Construct h])"
proof -
  have gen: "(case cr of Inl x \<Rightarrow> (Inl x, s') | Inr c \<Rightarrow> (let k = f c in (Inr k, s' @ [Construct k])))
       = (Inr h, s' @ [Construct h])"
    if "fst (case cr of Inl x \<Rightarrow> (Inl x, s) | Inr c \<Rightarrow> (let k = f c in (Inr k, s @ [Construct k]))) = Inr h"
    for cr :: "exn + creds" and f :: "creds \<Rightarrow> ilo"
    using that by (cases cr) (simp_all add: Let_def)
  assume "fst (u_login e kw s) = Inr h"
  then show ?thesis
    unfolding u_login_def Let_def by (rule gen [unfolded Let_def])
qed

lemma u_login_eq:
  "u_login e kw s = (Inr h, s1) \<Longrightarrow> s1 = s @ [Construct h]"
  using u_login_state [of e kw s h s] by simp

lemma called_handles_append:
  "called_handles (s @ t) = called_handles s @ called_handles t"
  by (induction s rule: called_handles.induct) simp_all

lemma constructed_handles_append:
  "constructed_handles (s @ t) = constructed_handles s @ constructed_handles t"
  by (induction s rule: constructed_handles.induct) simp_all

lemma power_change_calls_append:
  "power_change_calls (s @ t) = power_change_calls s + power_change_calls t"
  by (simp add: power_change_calls_def)

text \<open>The second and the third path of the resolver take every field from their own
  source: the named profile, or the three process-wide defaults.\<close>

lemma has_key_filter_delay:
  "k \<noteq> ''delay'' \<Longrightarrow> has_key (filter (\<lambda>(k, v). k \<noteq> ''delay'') kw) k = has_key kw k"
  by (auto simp: has_key_def)

lemma map_of_filter_delay:
  "k \<noteq> ''delay'' \<Longrightarrow> map_of (filter (\<lambda>(k, v). k \<noteq> ''delay'') kw) k = map_of kw k"
  by (induction kw) auto

lemma login_profile_source:
  assumes "\<not> (has_key kw ''login'' \<and> has_key kw ''password'' \<and> has_key kw ''hostname'')"
    and "map_of kw ''profile'' = Some p"
    and "config_option e p = Inr (PDict d)"
    and "map_of d ''login'' = Some l" and "map_of d ''password'' = Some pw"
    and "map_of d ''hostname'' = Some hn"
  shows "fst (u_login e kw s) =
     Inr \<lparr>login = l, password = pw, hostname = hn,
          delayed = (case map_of kw ''delay'' of Some v \<Rightarrow> v | None \<Rightarrow> PBool False)\<rparr>"
  using assms
  by (auto simp: u_login_def Let_def has_key_filter_delay map_of_filter_delay mk_creds_def)

lemma login_default_source:
  assumes "\<not> (has_key kw ''login'' \<and> has_key kw ''password'' \<and> has_key kw ''hostname'')"
    and "map_of kw ''profile'' = None"
    and "config_option e (PStr ''hpilo.login'') = Inr l"
    and "config_option e (PStr ''hpilo.password'') = Inr pw"
    and "config_option e (PStr ''hpilo.hostname'') = Inr hn"
  shows "fst (u_login e kw s) =
     Inr \<lparr>login = l, password = pw, hostname = hn,
          delayed = (case map_of kw ''delay'' of Some v \<Rightarrow> v | None \<Rightarrow> PBool False)\<rparr>"
  using assms
  by (auto simp: u_login_def Let_def has_key_filter_delay map_of_filter_delay mk_creds_def)

text \<open>The handlers written \<^verbatim>\<open>except hpilo.IloError\<close> catch the protocol error of
  their remote call, log the hostname and the error, and return the empty mapping.\<close>

lemma protocol_error_caught:
  assumes "u_login e kwargs s = (Inr h, s1)"
  shows "remote e h GetHostPowerStatus = Inl (IloError m) \<Longrightarrow>
           get_power_status e kwargs s =
             (Inr (PDict []),
              s1 @ [RemoteCall h GetHostPowerStatus,
                    LogError [Lit ''Failed to get power state of '', Fmt (hostname h), Lit '': '',
                              FmtExn (IloError m)]])"
    and "remote e h GetNetworkSettings = Inl (IloError m) \<Longrightarrow>
           network_settings e kwargs s =
             (Inr (PDict []),
              s1 @ [RemoteCall h GetNetworkSettings,
                    LogError [Lit ''Failed to get network settings from '', Fmt (hostname h),
                              Lit '': '', FmtExn (IloError m)]])"
    and "remote e h GetPersistentBoot = Inl (IloError m) \<Longrightarrow>
           get_boot_order e kwargs s =
             (Inr (PDict []),
              s1 @ [RemoteCall h GetPersistentBoot,
                    LogError [Lit ''Failed to get boot order from '', Fmt (hostname h),
                              Lit '': '', FmtExn (IloError m)]])"
    and "remote e h GetProductName = Inl (IloError m) \<Longrightarrow>
           product_info e kwargs s =
             (Inr (PDict []),
              s1 @ [RemoteCall h GetProductName,
                    LogError [Lit ''Failed to get product name and version version from '',
                              Fmt (hostname h), Lit '': '', FmtExn (IloError m)]])"
    and "remote e h (if py_truthy (kw_get kwargs ''detailed'') then GetAllUserInfo else GetAllUsers)
             = Inl (IloError m) \<Longrightarrow>
           list_users e kwargs s =
             (Inr (PDict []),
              s1 @ [RemoteCall h (if py_truthy (kw_get kwargs ''detailed'') then GetAllUserInfo
                                  else GetAllUsers),
                    LogError [Lit ''Failed to get all users from '', Fmt (hostname h),
                              Lit '': '', FmtExn (IloError m)]])"
  by (simp_all add: assms get_power_status_def network_settings_def get_boot_order_def
      product_info_def product_info_failed_def list_users_def call_def)

text \<open>\<^verbatim>\<open>get_power_status\<close> returns one of three mappings, and adds to the trace
  one construction, one status query and at most a log entry.\<close>

lemma get_power_status_shape:
  assumes "get_power_status e kw s = (Inr st, s2)"
  shows "st = PDict [] \<or> st = PDict [(''power'', PBool True)] \<or> st = PDict [(''power'', PBool False)]"
  using assms
  by (auto simp: get_power_status_def call_def split: prod.splits sum.splits exn.splits)

lemma get_power_status_trace:
  assumes "fst (u_login e kw s0) = Inr h"
  shows "\<exists>r. snd (get_power_status e kw s) = s @ Construct h # RemoteCall h GetHostPowerStatus # r
          \<and> constructed_handles r = [] \<and> called_handles r = [] \<and> power_change_calls r = 0"
  using u_login_state [OF assms, of s]
  by (auto simp: get_power_status_def call_def power_change_calls_def
      split: prod.splits sum.splits exn.splits)

text \<open>Merging stores every item; of two items with one key the later one stays.\<close>

lemma map_of_rev_distinct:
  "distinct (map fst xs) \<Longrightarrow> map_of (rev xs) = map_of xs"
proof (induction xs)
  case Nil
  then show ?case by simp
next
  case (Cons p ps)
  then have fresh: "fst p \<notin> dom (map_of ps)" and ih: "map_of (rev ps) = map_of ps"
    by (auto simp: dom_map_of_conv_image_fst)
  have "map_of (rev (p # ps)) k = map_of (p # ps) k" for k
    using fresh ih by (cases p) (auto simp: map_add_def split: option.splits)
  then show ?case by blast
qed

lemma map_of_dict_merge:
  "map_of (dict_merge d items) = map_of d ++ map_of (rev items)"
  unfolding dict_merge_def
  by (induction items arbitrary: d)
    (auto simp: update_conv' map_add_def fun_eq_iff split: option.splits)

lemma keys_dict_merge:
  "fst ` set (dict_merge d items) = fst ` set d \<union> fst ` set items"
proof -
  have "fst ` set (dict_merge d items) = dom (map_of (dict_merge d items))"
    by (simp add: dom_map_of_conv_image_fst)
  also have "\<dots> = dom (map_of d) \<union> dom (map_of (rev items))"
    by (auto simp: map_of_dict_merge)
  also have "\<dots> = fst ` set d \<union> fst ` set items"
    by (simp add: dom_map_of_conv_image_fst)
  finally show ?thesis .
qed

text \<open>Every operation but \<^verbatim>\<open>power_off\<close> constructs one client and calls no other;
  \<^verbatim>\<open>power_off\<close> constructs two, its own and the one of its status query.\<close>

lemma dispatcher_handles:
  assumes "fst (u_login e kwargs s) = Inr h"
  shows gps: "constructed_handles (new_events s (snd (get_power_status e kwargs s))) = [h]
               \<and> set (called_handles (new_events s (snd (get_power_status e kwargs s)))) \<subseteq> {h}"
    and pon: "constructed_handles (new_events s (snd (power_on e kwargs s))) = [h]
               \<and> set (called_handles (new_events s (snd (power_on e kwargs s)))) \<subseteq> {h}"
    and lus: "constructed_handles (new_events s (snd (list_users e kwargs s))) = [h]
               \<and> set (called_handles (new_events s (snd (list_users e kwargs s)))) \<subseteq> {h}"
    and nws: "constructed_handles (new_events s (snd (network_settings e kwargs s))) = [h]
               \<and> set (called_handles (new_events s (snd (network_settings e kwargs s)))) \<subseteq> {h}"
    and gbo: "constructed_handles (new_events s (snd (get_boot_order e kwargs s))) = [h]
               \<and> set (called_handles (new_events s (snd (get_boot_order e kwargs s)))) \<subseteq> {h}"
  using u_login_state [OF assms, of s]
  by (auto simp: get_power_status_def power_on_def list_users_def network_settings_def
      get_boot_order_def call_def new_events_def split: prod.splits sum.splits exn.splits)

lemma product_info_handles:
  assumes "fst (u_login e kwargs s) = Inr h"
  shows "constructed_handles (new_events s (snd (product_info e kwargs s))) = [h]
               \<and> set (called_handles (new_events s (snd (product_info e kwargs s)))) \<subseteq> {h}"
  using u_login_state [OF assms, of s]
  by (auto simp: product_info_def product_info_failed_def call_def new_events_def
      split: prod.splits sum.splits exn.splits)

lemma power_off_handles:
  assumes "fst (u_login e kwargs s) = Inr h"
  shows "constructed_handles (new_events s (snd (power_off e hold kwargs s))) = [h, h]
               \<and> set (called_handles (new_events s (snd (power_off e hold kwargs s)))) \<subseteq> {h}"
proof -
  have l1: "u_login e kwargs s = (Inr h, s @ [Construct h])"
    by (rule u_login_state [OF assms])
  obtain r where r: "snd (get_power_status e kwargs (s @ [Construct h])) =
       (s @ [Construct h]) @ Construct h # RemoteCall h GetHostPowerStatus # r"
     "constructed_handles r = []" "called_handles r = []"
    using get_power_status_trace [OF assms, of "s @ [Construct h]"] by blast
  obtain res s2 where g: "get_power_status e kwargs (s @ [Construct h]) = (res, s2)"
    by (cases "get_power_status e kwargs (s @ [Construct h])")
  have s2: "s2 = s @ [Construct h, Construct h, RemoteCall h GetHostPowerStatus] @ r"
    using r(1) g by simp
  show ?thesis
    using r(2,3)
    by (auto simp: power_off_def l1 g s2 call_def new_events_def Let_def
        constructed_handles_append called_handles_append
        split: sum.splits exn.splits)
qed

text \<open>The example inputs: the profile \<^verbatim>\<open>server1-ilo\<close> resolves to its handle.\<close>

lemmas example_defs = example_env_def example_option_def kw_profile_def kw_explicit_def
  profile_server1_def handle_server1_def config_object_def

lemma login_profile_example:
  "u_login (example_env c r) kw_profile s = (Inr handle_server1, s @ [Construct handle_server1])"
  by (simp add: u_login_def Let_def has_key_def mk_creds_def example_defs)

lemma remote_example: "remote (example_env c r) h = r"
  by (simp add: example_env_def)

section \<open>The credential resolver: explicit credentials\<close>

text \<open>
  Claim C1 says that the resolver takes its credentials from exactly one source, first
  match first: the supplied \<^verbatim>\<open>login\<close>, \<^verbatim>\<open>password\<close> and \<^verbatim>\<open>hostname\<close> when all
  three are present, else the named profile, else the process-wide defaults. The module's
  documentation promises the same for the command line
  \<^verbatim>\<open>hostname=... login=... password=...\<close>. The code does not do it on the first path:
  it reads \<^verbatim>\<open>config['login']\<close>, \<^verbatim>\<open>config['password']\<close>, \<^verbatim>\<open>config['hostname']\<close>.
  With the name \<^verbatim>\<open>config\<close> unbound, as the module leaves it, the call raises
  NameError and constructs no client; with a configuration object bound to it, the
  handle carries the fields of that object, and none of the supplied values.
\<close>

theorem login_explicit_reads_config:
  "u_login (example_env None device_on) kw_explicit [] = (Inl (NameError ''config''), [])
   \<and> fst (u_login (example_env (Some config_object) device_on) kw_explicit []) =
       Inr \<lparr>login = PStr ''cfg-user'', password = PStr ''cfg-pass'', hostname = PStr ''cfg-host'',
            delayed = PBool False\<rparr>"
  by (simp add: u_login_def Let_def has_key_def mk_creds_def example_defs)

section \<open>Power on\<close>

text \<open>
  Claim C2 says that every dispatcher catches the protocol error of its remote call, logs
  it with the hostname and returns an empty (or sentinel) mapping, and never lets the
  error out. The handler of \<^verbatim>\<open>power_on\<close> is written \<^verbatim>\<open>except IloError\<close> where
  its siblings write \<^verbatim>\<open>except hpilo.IloError\<close>: on a device that answers the power-on
  request with the protocol error, \<^verbatim>\<open>power_on\<close> raises NameError and logs nothing.
\<close>

theorem power_on_protocol_error_raises:
  "power_on (example_env None device_silent) kw_profile [] =
     (Inl (NameError ''IloError''),
      [Construct handle_server1, RemoteCall handle_server1 (SetHostPower True)])"
  by (simp add: power_on_def login_profile_example call_def device_silent_def remote_example)

text \<open>
  Claim C3 says that \<^verbatim>\<open>power_on\<close> returns \<^verbatim>\<open>{power_state: true}\<close> when the
  power-on request succeeds. The code builds that mapping in \<^verbatim>\<open>ret\<close> and never
  returns it: on a device that accepts the request, \<^verbatim>\<open>power_on\<close> returns None.
\<close>

theorem power_on_success_returns_none:
  "power_on (example_env None device_on) kw_profile [] =
     (Inr PNone, [Construct handle_server1, RemoteCall handle_server1 (SetHostPower True)])"
  by (simp add: power_on_def login_profile_example call_def device_on_def remote_example)

section \<open>Power status\<close>

text \<open>
  Claim C6: when the status query of \<^verbatim>\<open>get_power_status\<close> succeeds, the result is
  \<^verbatim>\<open>{power: true}\<close> if and only if the returned value is the string \<^verbatim>\<open>ON\<close>, and
  \<^verbatim>\<open>{power: false}\<close> for every other returned value.
\<close>

theorem get_power_status_on_iff:
  assumes "u_login e kwargs s = (Inr h, s1)" and "remote e h GetHostPowerStatus = Inr pwr"
  shows "(fst (get_power_status e kwargs s) = Inr (PDict [(''power'', PBool True)])
            \<longleftrightarrow> pwr = PStr ''ON'')
         \<and> (pwr \<noteq> PStr ''ON'' \<longrightarrow>
              fst (get_power_status e kwargs s) = Inr (PDict [(''power'', PBool False)]))"
  using assms by (simp add: get_power_status_def call_def)

theorem get_power_status_on_iff_witness:
  "fst (get_power_status (example_env None device_on) kw_profile []) =
     Inr (PDict [(''power'', PBool True)])
   \<and> fst (get_power_status (example_env None device_off) kw_profile []) =
     Inr (PDict [(''power'', PBool False)])"
proof -
  have on: "remote (example_env None device_on) handle_server1 GetHostPowerStatus = Inr (PStr ''ON'')"
    by (simp add: remote_example device_on_def)
  have off: "remote (example_env None device_off) handle_server1 GetHostPowerStatus = Inr (PStr ''OFF'')"
    by (simp add: remote_example device_off_def)
  show ?thesis
    using get_power_status_on_iff [OF login_profile_example on, of "[]"]
      get_power_status_on_iff [OF login_profile_example off, of "[]"]
    by simp
qed

section \<open>Power off\<close>

text \<open>
  Claim C5: when the status query that \<^verbatim>\<open>power_off\<close> makes first reports the device
  off (\<^verbatim>\<open>{power: false}\<close>), \<^verbatim>\<open>power_off\<close> returns \<^verbatim>\<open>{power_state: false}\<close>, its
  trace ends where the status query ended, and it sends no power-change command: no button
  press, no button hold.
\<close>

theorem power_off_already_off:
  assumes "u_login e kwargs s = (Inr h, s1)"
    and "fst (get_power_status e kwargs s1) = Inr (PDict [(''power'', PBool False)])"
  shows "fst (power_off e hold kwargs s) = Inr (PDict [(''power_state'', PBool False)])
         \<and> snd (power_off e hold kwargs s) = snd (get_power_status e kwargs s1)
         \<and> power_change_calls (snd (power_off e hold kwargs s)) = power_change_calls s"
proof -
  have login: "fst (u_login e kwargs s) = Inr h" and s1: "s1 = s @ [Construct h]"
    using assms(1) u_login_eq [OF assms(1)] by simp_all
  obtain s2 where g: "get_power_status e kwargs s1 = (Inr (PDict [(''power'', PBool False)]), s2)"
    using assms(2) by (cases "get_power_status e kwargs s1") simp
  have res: "power_off e hold kwargs s = (Inr (PDict [(''power_state'', PBool False)]), s2)"
    by (simp add: power_off_def assms(1) g)
  obtain r where "s2 = s1 @ Construct h # RemoteCall h GetHostPowerStatus # r"
    and "power_change_calls r = 0"
    using get_power_status_trace [OF login, of s1] g by auto
  then have "power_change_calls s2 = power_change_calls s"
    by (simp add: s1 power_change_calls_def)
  then show ?thesis by (simp add: res g)
qed

theorem power_off_already_off_witness:
  "u_login (example_env None device_off) kw_profile [] =
      (Inr handle_server1, [Construct handle_server1])
   \<and> fst (get_power_status (example_env None device_off) kw_profile [Construct handle_server1]) =
      Inr (PDict [(''power'', PBool False)])
   \<and> fst (power_off (example_env None device_off) (PBool True) kw_profile []) =
      Inr (PDict [(''power_state'', PBool False)])
   \<and> power_change_calls (snd (power_off (example_env None device_off) (PBool True) kw_profile [])) = 0"
proof -
  have l: "u_login (example_env None device_off) kw_profile [] =
      (Inr handle_server1, [Construct handle_server1])"
    by (simp add: login_profile_example)
  have gf: "get_power_status (example_env None device_off) kw_profile [Construct handle_server1] =
      (Inr (PDict [(''power'', PBool False)]),
       [Construct handle_server1, Construct handle_server1,
        RemoteCall handle_server1 GetHostPowerStatus])"
    by (simp add: get_power_status_def login_profile_example call_def remote_example device_off_def)
  then have g: "fst (get_power_status (example_env None device_off) kw_profile
                  [Construct handle_server1]) = Inr (PDict [(''power'', PBool False)])"
    by simp
  show ?thesis
    using l g power_off_already_off [OF l g, of "PBool True"]
    by (simp add: gf power_change_calls_def)
qed

text \<open>
  Claim C7: when the status query did not report the device off and the button command
  (hold or press, as \<^verbatim>\<open>hold\<close> selects) raises the protocol error, \<^verbatim>\<open>power_off\<close>
  returns the sentinel mapping \<^verbatim>\<open>{power_state: None}\<close>, not the empty mapping, after
  logging the hostname and the error.
\<close>

theorem power_off_button_error_sentinel:
  assumes "u_login e kwargs s = (Inr h, s1)"
    and "get_power_status e kwargs s1 = (Inr st, s2)"
    and "st \<noteq> PDict [(''power'', PBool False)]"
    and "remote e h (if py_truthy hold then HoldPwrBtn else PressPwrBtn) = Inl (IloError m)"
  shows "power_off e hold kwargs s =
     (Inr (PDict [(''power_state'', PNone)]),
      s2 @ [RemoteCall h (if py_truthy hold then HoldPwrBtn else PressPwrBtn),
            LogError [Lit ''Failed to power off '', Fmt (hostname h), Lit '': '',
                      FmtExn (IloError m)]])"
proof -
  have "st = PDict [] \<or> st = PDict [(''power'', PBool True)]"
    using get_power_status_shape [OF assms(2)] assms(3) by blast
  then show ?thesis
    using assms(4) by (auto simp: power_off_def assms(1,2) call_def)
qed

theorem power_off_button_error_sentinel_witness:
  "power_off (example_env None device_button_fails) (PBool True) kw_profile [] =
     (Inr (PDict [(''power_state'', PNone)]),
      [Construct handle_server1, Construct handle_server1,
       RemoteCall handle_server1 GetHostPowerStatus, RemoteCall handle_server1 HoldPwrBtn,
       LogError [Lit ''Failed to power off '', Fmt (PStr ''server1-ilo.oob.local''), Lit '': '',
                 FmtExn (IloError ''button locked'')]])"
proof -
  have l: "u_login (example_env None device_button_fails) kw_profile [] =
      (Inr handle_server1, [Construct handle_server1])"
    by (simp add: login_profile_example)
  have g: "get_power_status (example_env None device_button_fails) kw_profile [Construct handle_server1] =
      (Inr (PDict [(''power'', PBool True)]),
       [Construct handle_server1, Construct handle_server1, RemoteCall handle_server1 GetHostPowerStatus])"
    by (simp add: get_power_status_def login_profile_example call_def remote_example
        device_button_fails_def)
  have n: "PDict [(''power'', PBool True)] \<noteq> PDict [(''power'', PBool False)]"
    by simp
  have b: "remote (example_env None device_button_fails) handle_server1
             (if py_truthy (PBool True) then HoldPwrBtn else PressPwrBtn) = Inl (IloError ''button locked'')"
    by (simp add: remote_example device_button_fails_def)
  show ?thesis
    using power_off_button_error_sentinel [OF l g n b] by (simp add: handle_server1_def)
qed

text \<open>
  Claim C10: when the status query itself fails, so that \<^verbatim>\<open>get_power_status\<close>
  returns the empty mapping, \<^verbatim>\<open>power_off\<close> does not stop there: the next event is the
  button command, and the call sends exactly one power-change command.
\<close>

theorem power_off_unknown_state_presses:
  assumes "u_login e kwargs s = (Inr h, s1)"
    and "get_power_status e kwargs s1 = (Inr (PDict []), s2)"
  shows "(\<exists>r. snd (power_off e hold kwargs s) =
            s2 @ RemoteCall h (if py_truthy hold then HoldPwrBtn else PressPwrBtn) # r)
         \<and> power_change_calls (snd (power_off e hold kwargs s)) = power_change_calls s + 1"
proof -
  have login: "fst (u_login e kwargs s) = Inr h" and s1: "s1 = s @ [Construct h]"
    using assms(1) u_login_eq [OF assms(1)] by simp_all
  obtain r where "s2 = s1 @ Construct h # RemoteCall h GetHostPowerStatus # r"
    and "power_change_calls r = 0"
    using get_power_status_trace [OF login, of s1] assms(2) by auto
  then have cnt: "power_change_calls s2 = power_change_calls s"
    by (simp add: s1 power_change_calls_def)
  have "\<exists>r. snd (power_off e hold kwargs s) =
            s2 @ RemoteCall h (if py_truthy hold then HoldPwrBtn else PressPwrBtn) # r
          \<and> power_change_calls r = 0"
    by (auto simp: power_off_def assms call_def power_change_calls_def
        split: sum.splits exn.splits)
  then obtain r where r: "snd (power_off e hold kwargs s) =
            s2 @ RemoteCall h (if py_truthy hold then HoldPwrBtn else PressPwrBtn) # r"
    and r0: "power_change_calls r = 0"
    by blast
  have "power_change_calls (snd (power_off e hold kwargs s)) = power_change_calls s2 + 1"
    using r0 by (simp add: r power_change_calls_def)
  then show ?thesis
    using cnt r by simp
qed

theorem power_off_unknown_state_presses_witness:
  "get_power_status (example_env None device_silent) kw_profile [Construct handle_server1] =
      (Inr (PDict []),
       [Construct handle_server1, Construct handle_server1,
        RemoteCall handle_server1 GetHostPowerStatus,
        LogError [Lit ''Failed to get power state of '', Fmt (PStr ''server1-ilo.oob.local''),
                  Lit '': '', FmtExn (IloError ''timed out'')]])
   \<and> power_change_calls (snd (power_off (example_env None device_silent) (PBool False) kw_profile []))
       = 1"
proof -
  have l: "u_login (example_env None device_silent) kw_profile [] =
      (Inr handle_server1, [Construct handle_server1])"
    by (simp add: login_profile_example)
  have g: "get_power_status (example_env None device_silent) kw_profile [Construct handle_server1] =
      (Inr (PDict []),
       [Construct handle_server1, Construct handle_server1,
        RemoteCall handle_server1 GetHostPowerStatus,
        LogError [Lit ''Failed to get power state of '', Fmt (hostname handle_server1),
                  Lit '': '', FmtExn (IloError ''timed out'')]])"
    by (simp add: get_power_status_def login_profile_example call_def remote_example
        device_silent_def)
  show ?thesis
    using g power_off_unknown_state_presses [OF l g, of "PBool False"]
    by (simp add: power_change_calls_def handle_server1_def)
qed

section \<open>One client for each call\<close>

text \<open>
  Claim C4 says that every dispatcher call constructs exactly one client, \<^verbatim>\<open>power_off\<close>
  included. It does not hold for \<^verbatim>\<open>power_off\<close>, which logs in and then calls
  \<^verbatim>\<open>get_power_status\<close>, which logs in again: one call of \<^verbatim>\<open>power_off\<close> on the
  example device constructs two clients.
\<close>

theorem power_off_constructs_two:
  "length (constructed_handles
      (snd (power_off (example_env None device_on) (PBool False) kw_profile []))) = 2"
  by (simp add: power_off_def get_power_status_def login_profile_example call_def device_on_def
      remote_example)

text \<open>
  Claim C4, amended: a dispatcher call whose credential resolution succeeds constructs
  exactly one client, and calls methods on no other handle than the one it resolved,
  with the exception of \<^verbatim>\<open>power_off\<close>, which constructs two clients from the same
  Credential Set: its own and the one of its status query.
\<close>

theorem clients_per_call:
  assumes "fst (u_login e kwargs s) = Inr h"
  shows "(\<forall>d \<in> {get_power_status, power_on, list_users, product_info, network_settings,
                 get_boot_order}.
            constructed_handles (new_events s (snd (d e kwargs s))) = [h]
            \<and> set (called_handles (new_events s (snd (d e kwargs s)))) \<subseteq> {h})
         \<and> constructed_handles (new_events s (snd (power_off e hold kwargs s))) = [h, h]
         \<and> set (called_handles (new_events s (snd (power_off e hold kwargs s)))) \<subseteq> {h}"
  using dispatcher_handles [OF assms] product_info_handles [OF assms]
    power_off_handles [OF assms, of hold]
  by simp

theorem clients_per_call_witness:
  "fst (u_login (example_env None device_on) kw_profile []) = Inr handle_server1
   \<and> constructed_handles
        (new_events [] (snd (list_users (example_env None device_on) kw_profile [])))
       = [handle_server1]
   \<and> constructed_handles
        (new_events [] (snd (power_off (example_env None device_on) (PBool False) kw_profile [])))
       = [handle_server1, handle_server1]"
proof -
  have h: "fst (u_login (example_env None device_on) kw_profile []) = Inr handle_server1"
    by (simp add: login_profile_example)
  show ?thesis
    using h clients_per_call [OF h, of "PBool False"] by simp
qed

section \<open>Users and product information\<close>

text \<open>
  Claim C8: a successful \<^verbatim>\<open>list_users\<close> returns what the summary call
  \<^verbatim>\<open>get_all_users\<close> returned (the list of user names) when \<^verbatim>\<open>detailed\<close> is falsy
  or absent, and what the detailed call \<^verbatim>\<open>get_all_user_info\<close> returned (the mapping
  of user records) when \<^verbatim>\<open>detailed\<close> is truthy; it makes that one call only.
\<close>

theorem list_users_shape:
  assumes "u_login e kwargs s = (Inr h, s1)"
  shows "(\<not> py_truthy (kw_get kwargs ''detailed'') \<longrightarrow> remote e h GetAllUsers = Inr users \<longrightarrow>
            list_users e kwargs s = (Inr users, s1 @ [RemoteCall h GetAllUsers]))
         \<and> (py_truthy (kw_get kwargs ''detailed'') \<longrightarrow> remote e h GetAllUserInfo = Inr info \<longrightarrow>
            list_users e kwargs s = (Inr info, s1 @ [RemoteCall h GetAllUserInfo]))"
  by (simp add: list_users_def assms call_def)

theorem list_users_shape_witness:
  "list_users (example_env None device_on) kw_profile [] =
     (Inr (PList [PStr ''Administrator'', PStr ''backup'']),
      [Construct handle_server1, RemoteCall handle_server1 GetAllUsers])
   \<and> list_users (example_env None device_on) ((''detailed'', PBool True) # kw_profile) [] =
     (Inr (PDict [(''Administrator'', PDict [(''admin_priv'', PBool True)]),
                  (''backup'', PDict [(''admin_priv'', PBool False)])]),
      [Construct handle_server1, RemoteCall handle_server1 GetAllUserInfo])"
proof -
  have l1: "u_login (example_env None device_on) kw_profile [] =
      (Inr handle_server1, [Construct handle_server1])"
    by (simp add: login_profile_example)
  have l2: "u_login (example_env None device_on) ((''detailed'', PBool True) # kw_profile) [] =
      (Inr handle_server1, [Construct handle_server1])"
    by (simp add: u_login_def Let_def has_key_def mk_creds_def example_defs)
  have f: "\<not> py_truthy (kw_get kw_profile ''detailed'')"
    and t: "py_truthy (kw_get ((''detailed'', PBool True) # kw_profile) ''detailed'')"
    by (simp_all add: kw_get_def kw_profile_def)
  have u: "remote (example_env None device_on) handle_server1 GetAllUsers =
      Inr (PList [PStr ''Administrator'', PStr ''backup''])"
    and i: "remote (example_env None device_on) handle_server1 GetAllUserInfo =
      Inr (PDict [(''Administrator'', PDict [(''admin_priv'', PBool True)]),
                  (''backup'', PDict [(''admin_priv'', PBool False)])])"
    by (simp_all add: remote_example device_on_def)
  show ?thesis
    using list_users_shape [OF l1] list_users_shape [OF l2] f t u i by simp
qed

text \<open>
  Claim C9: a successful \<^verbatim>\<open>product_info\<close> returns one flat mapping whose keys are
  \<^verbatim>\<open>product_name\<close>, the keys of the firmware-version mapping and the keys of the
  asset-tag mapping; where keys collide the source merged last wins: the firmware
  version over the asset tag, and both over the product name.
\<close>

theorem product_info_merge:
  assumes "u_login e kwargs s = (Inr h, s1)"
    and "remote e h GetProductName = Inr pn"
    and "remote e h GetFwVersion = Inr (PDict fw)"
    and "remote e h GetAssetTag = Inr (PDict tag)"
    and "distinct (map fst fw)" and "distinct (map fst tag)"
  shows "\<exists>d. fst (product_info e kwargs s) = Inr (PDict d)
           \<and> fst ` set d = {''product_name''} \<union> fst ` set fw \<union> fst ` set tag
           \<and> map_of d = [''product_name'' \<mapsto> pn] ++ map_of tag ++ map_of fw"
proof -
  let ?d = "dict_merge (dict_merge [(''product_name'', pn)] tag) fw"
  have res: "fst (product_info e kwargs s) = Inr (PDict ?d)"
    by (simp add: product_info_def product_info_result_def assms(1-4) call_def)
  have keys: "fst ` set ?d = {''product_name''} \<union> fst ` set fw \<union> fst ` set tag"
    by (auto simp: keys_dict_merge)
  have "map_of ?d = map_of [(''product_name'', pn)] ++ map_of tag ++ map_of fw"
    by (simp add: map_of_dict_merge map_of_rev_distinct assms(5,6))
  then have vals: "map_of ?d = [''product_name'' \<mapsto> pn] ++ map_of tag ++ map_of fw"
    by simp
  show ?thesis
    using res keys vals by blast
qed

theorem product_info_merge_witness:
  "fst (product_info (example_env None device_on) kw_profile []) =
     Inr (PDict [(''product_name'', PStr ''ProLiant DL380 Gen9''), (''asset_tag'', PStr ''R42''),
                 (''firmware_version'', PStr ''2.50''), (''management_processor'', PStr ''iLO4'')])
   \<and> (\<exists>d. fst (product_info (example_env None device_on) kw_profile []) = Inr (PDict d)
         \<and> fst ` set d = {''asset_tag'', ''firmware_version'', ''management_processor'', ''product_name''})"
proof -
  let ?fw = "[(''firmware_version'', PStr ''2.50''), (''management_processor'', PStr ''iLO4'')]"
  let ?tag = "[(''asset_tag'', PStr ''R42'')]"
  have l: "u_login (example_env None device_on) kw_profile [] =
      (Inr handle_server1, [Construct handle_server1])"
    by (simp add: login_profile_example)
  have p: "remote (example_env None device_on) handle_server1 GetProductName =
      Inr (PStr ''ProLiant DL380 Gen9'')"
    and f: "remote (example_env None device_on) handle_server1 GetFwVersion = Inr (PDict ?fw)"
    and a: "remote (example_env None device_on) handle_server1 GetAssetTag = Inr (PDict ?tag)"
    by (simp_all add: remote_example device_on_def)
  have df: "distinct (map fst ?fw)" and da: "distinct (map fst ?tag)"
    by simp_all
  have ev: "fst (product_info (example_env None device_on) kw_profile []) =
     Inr (PDict [(''product_name'', PStr ''ProLiant DL380 Gen9''), (''asset_tag'', PStr ''R42''),
                 (''firmware_version'', PStr ''2.50''), (''management_processor'', PStr ''iLO4'')])"
    by (simp add: product_info_def product_info_result_def login_profile_example call_def
        remote_example device_on_def dict_merge_def)
  obtain d where d: "fst (product_info (example_env None device_on) kw_profile []) = Inr (PDict d)"
    and k: "fst ` set d = {''product_name''} \<union> fst ` set ?fw \<union> fst ` set ?tag"
    using product_info_merge [OF l p f a df da] by blast
  have "fst ` set d = {''asset_tag'', ''firmware_version'', ''management_processor'', ''product_name''}"
    using k by simp
  with d have "\<exists>d. fst (product_info (example_env None device_on) kw_profile []) = Inr (PDict d)
         \<and> fst ` set d = {''asset_tag'', ''firmware_version'', ''management_processor'', ''product_name''}"
    by blast
  then show ?thesis using ev by blast
qed

end
